theory Spec2Isabelle
  imports Main "HOL-Library.Char_ord" "HOL-Library.List_Lexorder" "HOL-Library.Word"
begin

section \<open>Values of the CRM responses\<close>

text \<open>
  The program reads the responses of the record store as loosely typed dictionaries
  (\<^verbatim>\<open>rec.get("Type", "Other")\<close>). The values it meets there are JSON values: null,
  an integer (the \<^verbatim>\<open>COUNT(Id)\<close> column), a string, or a nested object (a relationship
  such as \<^verbatim>\<open>Owner\<close> or \<^verbatim>\<open>InternalUser\<close>). Booleans, floats and arrays do not occur
  in the fields the program reads and are left out. A dictionary is kept as the list of
  its entries; the entry that counts for a key is the first one with that key.
\<close>

datatype pyval =
    PNone
  | PInt int
  | PStr string
  | PDict "(string \<times> pyval) list"

type_synonym pydict = "(string \<times> pyval) list"

text \<open>The exceptions the program can meet inside its \<^verbatim>\<open>try\<close> block.\<close>

datatype exn =
    AttributeError
  | TypeError
  | SalesforceError string

text \<open>\<^verbatim>\<open>d.get(key, default)\<close> and \<^verbatim>\<open>d.get(key)\<close>, whose default is \<^verbatim>\<open>None\<close>.\<close>

definition dict_get :: "pydict \<Rightarrow> string \<Rightarrow> pyval \<Rightarrow> pyval" where
  "dict_get d k dflt = (case map_of d k of Some v \<Rightarrow> v | None \<Rightarrow> dflt)"

text \<open>Truth value of an object, as \<^verbatim>\<open>or\<close>, \<^verbatim>\<open>not\<close> and \<^verbatim>\<open>if\<close> read it.\<close>

fun truthy :: "pyval \<Rightarrow> bool" where
  "truthy PNone = False"
| "truthy (PInt n) = (n \<noteq> 0)"
| "truthy (PStr s) = (s \<noteq> [])"
| "truthy (PDict d) = (d \<noteq> [])"

text \<open>Dictionaries are not hashable: using one as a key or set element raises \<^verbatim>\<open>TypeError\<close>.\<close>

fun hashable :: "pyval \<Rightarrow> bool" where
  "hashable (PDict d) = False"
| "hashable v = True"

section \<open>Category mapper\<close>

text \<open>
  A dictionary display inserts its entries from left to right, so a later entry replaces
  an earlier one with the same key.
\<close>

definition py_dict :: "('k \<times> 'v) list \<Rightarrow> ('k \<rightharpoonup> 'v)" where
  "py_dict kvs = foldl (\<lambda>m (k, v). m(k \<mapsto> v)) Map.empty kvs"

definition LOB_MAPPING_entries :: "(string \<times> string) list" where
  "LOB_MAPPING_entries =
    [(''Homeowners'', ''Homeowners''),
     (''Dwelling Fire - PL'', ''Homeowners''),
     (''Mobile Homeowners'', ''Homeowners''),
     (''Wind Only - PL'', ''Homeowners''),
     (''Personal Auto'', ''Personal Auto''),
     (''Motorcycle/ATV'', ''Personal Auto''),
     (''Motorhome'', ''Personal Auto''),
     (''Recreational Vehicle'', ''Personal Auto''),
     (''Travel Trailer'', ''Personal Auto''),
     (''Golf Cart'', ''Personal Auto''),
     (''Watercraft'', ''Boat''),
     (''Charter Watercraft'', ''Boat''),
     (''Yacht'', ''Boat''),
     (''Burnboat'', ''Boat''),
     (''Boat'', ''Boat''),
     (''Umbrella'', ''Umbrella''),
     (''Commercial Umbrella'', ''Umbrella''),
     (''Inland Marine - PL'', ''Inland Marine''),
     (''Inland Marine - CL'', ''Inland Marine''),
     (''Commercial Package'', ''Commercial''),
     (''Builders Risk/Installation - PL'', ''Commercial''),
     (''Builders Risk/Installation - CL'', ''Commercial''),
     (''Business Owners'', ''Commercial''),
     (''Commercial Auto'', ''Commercial''),
     (''Commercial Property'', ''Commercial''),
     (''Directors & Officers'', ''Commercial''),
     (''Employment Practice Liability'', ''Commercial''),
     (''Errors & Omissions'', ''Commercial''),
     (''General Liability'', ''Commercial''),
     (''Liquor Liability'', ''Commercial''),
     (''Marine Package'', ''Commercial''),
     (''Wind Only - CL'', ''Commercial''),
     (''Flood - PL'', ''Other''),
     (''Personal Liability'', ''Other''),
     (''Life'', ''Other'')]"

definition LOB_MAPPING :: "string \<rightharpoonup> string" where
  "LOB_MAPPING = py_dict LOB_MAPPING_entries"

text \<open>
  \<^verbatim>\<open>LOB_MAPPING.get(type_value, "Other")\<close>. The annotation says \<^verbatim>\<open>str\<close>, but the callers
  pass whatever the response holds under \<^verbatim>\<open>Type\<close>: a key that is not a string is never
  found, and a key that is not hashable makes the lookup raise.
\<close>

definition map_lob :: "pyval \<Rightarrow> exn + string" where
  "map_lob type_value =
    (case type_value of
       PStr s \<Rightarrow> Inr (case LOB_MAPPING s of Some c \<Rightarrow> c | None \<Rightarrow> ''Other'')
     | PDict d \<Rightarrow> Inl TypeError
     | _ \<Rightarrow> Inr ''Other'')"

section \<open>Text of values\<close>

text \<open>
  A Python string is modelled by the bytes of its UTF-8 encoding. \<^verbatim>\<open>str.strip()\<close> removes
  the white space characters at both ends: the ASCII ones (tab, line feed, vertical tab,
  form feed, carriage return, the separators \<open>0x1C\<close> to \<open>0x1F\<close>, the space), and
  \<open>U+0085\<close>, \<open>U+00A0\<close>, \<open>U+1680\<close>, \<open>U+2000\<close> to \<open>U+200A\<close>, \<open>U+2028\<close>, \<open>U+2029\<close>,
  \<open>U+202F\<close>, \<open>U+205F\<close> and \<open>U+3000\<close>, which are two or three bytes long.
\<close>

definition space1 :: "char \<Rightarrow> bool" where
  "space1 a =
    (a \<in> set [CHR 0x09, CHR 0x0A, CHR 0x0B, CHR 0x0C, CHR 0x0D,
              CHR 0x1C, CHR 0x1D, CHR 0x1E, CHR 0x1F, CHR 0x20])"

definition space2 :: "char \<Rightarrow> char \<Rightarrow> bool" where
  "space2 a b = (a = CHR 0xC2 \<and> (b = CHR 0x85 \<or> b = CHR 0xA0))"

definition space3 :: "char \<Rightarrow> char \<Rightarrow> char \<Rightarrow> bool" where
  "space3 a b c =
    ((a = CHR 0xE1 \<and> b = CHR 0x9A \<and> c = CHR 0x80)
     \<or> (a = CHR 0xE2 \<and> b = CHR 0x80
         \<and> c \<in> set [CHR 0x80, CHR 0x81, CHR 0x82, CHR 0x83, CHR 0x84, CHR 0x85, CHR 0x86,
                     CHR 0x87, CHR 0x88, CHR 0x89, CHR 0x8A, CHR 0xA8, CHR 0xA9, CHR 0xAF])
     \<or> (a = CHR 0xE2 \<and> b = CHR 0x81 \<and> c = CHR 0x9F)
     \<or> (a = CHR 0xE3 \<and> b = CHR 0x80 \<and> c = CHR 0x80))"

text \<open>Removing the white space at the front.\<close>

fun lstrip :: "string \<Rightarrow> string" where
  "lstrip (a # b # c # s) =
    (if space1 a then lstrip (b # c # s)
     else if space2 a b then lstrip (c # s)
     else if space3 a b c then lstrip s
     else a # b # c # s)"
| "lstrip [a, b] = (if space1 a then lstrip [b] else if space2 a b then [] else [a, b])"
| "lstrip [a] = (if space1 a then [] else [a])"
| "lstrip [] = []"

text \<open>
  Removing the white space at the end, on the reversed string: the bytes of a character
  come last byte first.
\<close>

fun rstrip_rev :: "string \<Rightarrow> string" where
  "rstrip_rev (a # b # c # s) =
    (if space1 a then rstrip_rev (b # c # s)
     else if space2 b a then rstrip_rev (c # s)
     else if space3 c b a then rstrip_rev s
     else a # b # c # s)"
| "rstrip_rev [a, b] = (if space1 a then rstrip_rev [b] else if space2 b a then [] else [a, b])"
| "rstrip_rev [a] = (if space1 a then [] else [a])"
| "rstrip_rev [] = []"

definition strip :: "string \<Rightarrow> string" where
  "strip s = rev (rstrip_rev (rev (lstrip s)))"

definition digit_chars :: string where
  "digit_chars = ''0123456789''"

fun digits_of :: "nat \<Rightarrow> string" where
  "digits_of n =
    (if n < 10 then [digit_chars ! n]
     else digits_of (n div 10) @ [digit_chars ! (n mod 10)])"

declare digits_of.simps [simp del]

definition str_int :: "int \<Rightarrow> string" where
  "str_int i = (if i < 0 then CHR ''-'' # digits_of (nat (- i)) else digits_of (nat i))"

text \<open>
  What a replacement field of an f-string prints for a value. The text of a nested
  response object depends on the mapping class the client library builds, so it is a
  parameter \<open>obj_repr\<close>.
\<close>

fun py_str :: "(pydict \<Rightarrow> string) \<Rightarrow> pyval \<Rightarrow> string" where
  "py_str obj_repr PNone = ''None''"
| "py_str obj_repr (PInt i) = str_int i"
| "py_str obj_repr (PStr s) = s"
| "py_str obj_repr (PDict d) = obj_repr d"

text \<open>\<^verbatim>\<open>sep.join(parts)\<close>.\<close>

fun join :: "string \<Rightarrow> string list \<Rightarrow> string" where
  "join sep [] = []"
| "join sep [p] = p"
| "join sep (p # q # ps) = p @ sep @ join sep (q # ps)"

section \<open>The record store\<close>

text \<open>
  The authenticated connection answers a query text with the list of records of the
  response (\<^verbatim>\<open>results["records"]\<close>; the client library always builds that envelope) or
  raises. The queries issued so far are kept in a list, oldest first, so that the number
  of external calls can be stated.
\<close>

type_synonym salesforce = "string \<Rightarrow> exn + pydict list"

definition query_all :: "salesforce \<Rightarrow> string \<Rightarrow> string list \<Rightarrow> (exn + pydict list) \<times> string list" where
  "query_all sf query calls = (sf query, calls @ [query])"

section \<open>Producer resolver\<close>

definition producer_query :: "string \<Rightarrow> string" where
  "producer_query id_list =
    ''\<newline>        SELECT Id, InternalUser.FirstName, InternalUser.LastName''
    @ ''\<newline>        FROM Producer''
    @ ''\<newline>        WHERE Id IN ('' @ id_list @ '')''
    @ ''\<newline>    ''"

text \<open>The body of the loop over the records of the lookup: the key and the name it stores.\<close>

definition producer_entry :: "(pydict \<Rightarrow> string) \<Rightarrow> pydict \<Rightarrow> exn + (pyval \<times> string)" where
  "producer_entry obj_repr rec =
    (let pid = dict_get rec ''Id'' PNone;
         iu = dict_get rec ''InternalUser'' PNone;
         internal_user = (if truthy iu then iu else PDict [])
     in case internal_user of
          PDict d \<Rightarrow>
            (let first = dict_get d ''FirstName'' (PStr []);
                 last = dict_get d ''LastName'' (PStr []);
                 full_name = strip (py_str obj_repr first @ '' '' @ py_str obj_repr last);
                 full_name = (if full_name = [] then ''Name Not Provided'' else full_name)
             in if hashable pid then Inr (pid, full_name) else Inl TypeError)
        | _ \<Rightarrow> Inl AttributeError)"

fun producer_loop ::
  "(pydict \<Rightarrow> string) \<Rightarrow> pydict list \<Rightarrow> (pyval \<rightharpoonup> string) \<Rightarrow> exn + (pyval \<rightharpoonup> string)" where
  "producer_loop obj_repr [] mapping = Inr mapping"
| "producer_loop obj_repr (rec # recs) mapping =
    (case producer_entry obj_repr rec of
       Inl e \<Rightarrow> Inl e
     | Inr (pid, full_name) \<Rightarrow> producer_loop obj_repr recs (mapping(pid \<mapsto> full_name)))"

definition id_list :: "(pydict \<Rightarrow> string) \<Rightarrow> pyval list \<Rightarrow> string" where
  "id_list obj_repr producer_ids =
    join '', '' (map (\<lambda>pid. [CHR 0x27] @ py_str obj_repr pid @ [CHR 0x27]) producer_ids)"

definition get_producer_names ::
  "(pydict \<Rightarrow> string) \<Rightarrow> salesforce \<Rightarrow> pyval list \<Rightarrow> string list
    \<Rightarrow> (exn + (pyval \<rightharpoonup> string)) \<times> string list" where
  "get_producer_names obj_repr sf producer_ids calls =
    (if producer_ids = [] then (Inr Map.empty, calls)
     else
       let query = producer_query (id_list obj_repr producer_ids);
           (results, calls') = query_all sf query calls
       in case results of
            Inl e \<Rightarrow> (Inl e, calls')
          | Inr records \<Rightarrow> (producer_loop obj_repr records Map.empty, calls'))"

section \<open>Aggregation queries\<close>

text \<open>
  A \<^verbatim>\<open>datetime.date\<close>. \<^verbatim>\<open>strftime\<close> copies its format and replaces the directives
  \<^verbatim>\<open>%Y\<close>, \<^verbatim>\<open>%m\<close> and \<^verbatim>\<open>%d\<close>, the only ones the program uses. The text of the
  directives is that of the C library the interpreter calls; on the platform of the
  run (glibc) \<^verbatim>\<open>%Y\<close> is the decimal year without padding, and \<^verbatim>\<open>%m\<close> and \<^verbatim>\<open>%d\<close> are
  the month and the day on two digits.
\<close>

record date =
  year :: nat
  month :: nat
  day :: nat

definition zero_pad :: "nat \<Rightarrow> nat \<Rightarrow> string" where
  "zero_pad width n = replicate (width - length (digits_of n)) CHR ''0'' @ digits_of n"

fun strftime :: "date \<Rightarrow> string \<Rightarrow> string" where
  "strftime d (p # x # fmt) =
    (if p = CHR ''%'' \<and> x = CHR ''Y'' then digits_of (year d) @ strftime d fmt
     else if p = CHR ''%'' \<and> x = CHR ''m'' then zero_pad 2 (month d) @ strftime d fmt
     else if p = CHR ''%'' \<and> x = CHR ''d'' then zero_pad 2 (day d) @ strftime d fmt
     else p # strftime d (x # fmt))"
| "strftime d fmt = fmt"

definition date_filter :: "date \<Rightarrow> date \<Rightarrow> string" where
  "date_filter start_date end_date =
    (let start_date_str = strftime start_date ''%Y-%m-%dT00:00:00Z'';
         end_date_str = strftime end_date ''%Y-%m-%dT23:59:59Z''
     in ''CreatedDate >= '' @ start_date_str @ '' AND CreatedDate <= '' @ end_date_str)"

definition type_query :: "date \<Rightarrow> date \<Rightarrow> string" where
  "type_query start_date end_date =
    ''\<newline>            SELECT Type, COUNT(Id) oppCount''
    @ ''\<newline>            FROM Opportunity''
    @ ''\<newline>            WHERE '' @ date_filter start_date end_date
    @ ''\<newline>            GROUP BY Type''
    @ ''\<newline>        ''"

definition query_with_producer :: "date \<Rightarrow> date \<Rightarrow> string" where
  "query_with_producer start_date end_date =
    ''\<newline>            SELECT Producer__c, Type, COUNT(Id) oppCount''
    @ ''\<newline>            FROM Opportunity''
    @ ''\<newline>            WHERE '' @ date_filter start_date end_date @ '' AND Producer__c != null''
    @ ''\<newline>            GROUP BY Producer__c, Type''
    @ ''\<newline>        ''"

definition query_without_producer :: "date \<Rightarrow> date \<Rightarrow> string" where
  "query_without_producer start_date end_date =
    ''\<newline>            SELECT Owner.Name, Type, COUNT(Id) oppCount''
    @ ''\<newline>            FROM Opportunity''
    @ ''\<newline>            WHERE '' @ date_filter start_date end_date @ '' AND Producer__c = null''
    @ ''\<newline>            GROUP BY Owner.Name, Type''
    @ ''\<newline>        ''"

text \<open>
  The dates of the statement about the filter: a four-digit year, as the date picker of
  the page gives, and a month and a day in range.
\<close>

definition four_digit_date :: "date \<Rightarrow> bool" where
  "four_digit_date d \<longleftrightarrow>
     1000 \<le> year d \<and> year d \<le> 9999 \<and> 1 \<le> month d \<and> month d \<le> 12 \<and> 1 \<le> day d \<and> day d \<le> 31"

text \<open>
  The reference text of a calendar day in a dateTime literal, written from the statement
  and not from the code: four digits of year, two of month, two of day, with hyphens.
\<close>

definition spec_day_text :: "date \<Rightarrow> string" where
  "spec_day_text d =
    [''0123456789'' ! (year d div 1000), ''0123456789'' ! (year d div 100 mod 10),
     ''0123456789'' ! (year d div 10 mod 10), ''0123456789'' ! (year d mod 10),
     CHR ''-'',
     ''0123456789'' ! (month d div 10), ''0123456789'' ! (month d mod 10),
     CHR ''-'',
     ''0123456789'' ! (day d div 10), ''0123456789'' ! (day d mod 10)]"

section \<open>Result assembler\<close>

text \<open>
  The rows of the two tables. A table is the list of the rows handed to
  \<^verbatim>\<open>pd.DataFrame\<close>, and the empty table \<^verbatim>\<open>pd.DataFrame()\<close> is the empty list. The
  conversion pandas applies to a column that mixes integers and nulls is not part of
  this model; the statements about tables are made for responses whose counts are
  integers, as \<^verbatim>\<open>COUNT(Id)\<close> gives.
\<close>

record lob_row =
  Type :: pyval
  LOB_Category :: string
  Count :: pyval

record producer_row = lob_row +
  Producer :: pyval

text \<open>The loop over the records of query 1.\<close>

fun lob_loop :: "pydict list \<Rightarrow> lob_row list \<Rightarrow> exn + lob_row list" where
  "lob_loop [] lob_data = Inr lob_data"
| "lob_loop (rec # recs) lob_data =
    (let picklist_val = dict_get rec ''Type'' (PStr ''Other'');
         count_val = dict_get rec ''oppCount'' (PInt 0)
     in case map_lob picklist_val of
          Inl e \<Rightarrow> Inl e
        | Inr lob_category \<Rightarrow>
            lob_loop recs
              (lob_data @ [\<lparr>Type = picklist_val, LOB_Category = lob_category, Count = count_val\<rparr>]))"

text \<open>
  The set comprehension over the records of query 2: the elements added, in the order of
  the records. Adding a value that is not hashable raises.
\<close>

fun producer_id_set :: "pydict list \<Rightarrow> exn + pyval list" where
  "producer_id_set [] = Inr []"
| "producer_id_set (rec # recs) =
    (let v = dict_get rec ''Producer__c'' PNone
     in if truthy v then
          (if hashable v then
             (case producer_id_set recs of Inl e \<Rightarrow> Inl e | Inr ids \<Rightarrow> Inr (v # ids))
           else Inl TypeError)
        else producer_id_set recs)"

text \<open>The loop over the records of query 2.\<close>

fun with_producer_loop ::
  "(pyval \<rightharpoonup> string) \<Rightarrow> pydict list \<Rightarrow> producer_row list \<Rightarrow> exn + producer_row list" where
  "with_producer_loop producer_names [] producer_data = Inr producer_data"
| "with_producer_loop producer_names (rec # recs) producer_data =
    (let prod_id = dict_get rec ''Producer__c'' PNone
     in if \<not> hashable prod_id then Inl TypeError
        else
          let producer_name =
                (case producer_names prod_id of
                   Some n \<Rightarrow> PStr n
                 | None \<Rightarrow> PStr ''Name Not Provided'');
              picklist_val = dict_get rec ''Type'' (PStr ''Other'');
              count_val = dict_get rec ''oppCount'' (PInt 0)
          in case map_lob picklist_val of
               Inl e \<Rightarrow> Inl e
             | Inr lob_category \<Rightarrow>
                 with_producer_loop producer_names recs
                   (producer_data @
                     [\<lparr>Type = picklist_val, LOB_Category = lob_category, Count = count_val,
                       Producer = producer_name\<rparr>]))"

text \<open>The loop over the records of query 3.\<close>

fun without_producer_loop :: "pydict list \<Rightarrow> producer_row list \<Rightarrow> exn + producer_row list" where
  "without_producer_loop [] producer_data = Inr producer_data"
| "without_producer_loop (rec # recs) producer_data =
    (let ow = dict_get rec ''Owner'' PNone;
         owner = (if truthy ow then ow else PDict [])
     in case owner of
          PDict d \<Rightarrow>
            (let producer_name = dict_get d ''Name'' (PStr ''Name Not Provided'');
                 picklist_val = dict_get rec ''Type'' (PStr ''Other'');
                 count_val = dict_get rec ''oppCount'' (PInt 0)
             in case map_lob picklist_val of
                  Inl e \<Rightarrow> Inl e
                | Inr lob_category \<Rightarrow>
                    without_producer_loop recs
                      (producer_data @
                        [\<lparr>Type = picklist_val, LOB_Category = lob_category, Count = count_val,
                          Producer = producer_name\<rparr>]))
        | _ \<Rightarrow> Inl AttributeError)"

text \<open>
  The body of the \<^verbatim>\<open>try\<close> block. \<open>session_sf\<close> is \<^verbatim>\<open>st.session_state.sf\<close>, which is
  unset when authentication did not succeed; reading it then raises. \<open>set_list\<close> is
  \<^verbatim>\<open>list(producer_ids)\<close>: the order in which a set is iterated is not fixed by the
  language, so it is a parameter.
\<close>

definition try_block ::
  "(pydict \<Rightarrow> string) \<Rightarrow> (pyval list \<Rightarrow> pyval list) \<Rightarrow> salesforce option \<Rightarrow> date \<Rightarrow> date
    \<Rightarrow> string list \<Rightarrow> (exn + (lob_row list \<times> producer_row list)) \<times> string list" where
  "try_block obj_repr set_list session_sf start_date end_date calls =
    (case session_sf of
       None \<Rightarrow> (Inl AttributeError, calls)
     | Some sf \<Rightarrow>
        let (type_results, calls1) = query_all sf (type_query start_date end_date) calls
        in case type_results of
             Inl e \<Rightarrow> (Inl e, calls1)
           | Inr type_records \<Rightarrow>
        (case lob_loop type_records [] of
             Inl e \<Rightarrow> (Inl e, calls1)
           | Inr lob_data \<Rightarrow>
        let (results_with_prod, calls2) =
              query_all sf (query_with_producer start_date end_date) calls1
        in case results_with_prod of
             Inl e \<Rightarrow> (Inl e, calls2)
           | Inr with_prod \<Rightarrow>
        let (results_without_prod, calls3) =
              query_all sf (query_without_producer start_date end_date) calls2
        in case results_without_prod of
             Inl e \<Rightarrow> (Inl e, calls3)
           | Inr without_prod \<Rightarrow>
        (case producer_id_set with_prod of
             Inl e \<Rightarrow> (Inl e, calls3)
           | Inr producer_ids \<Rightarrow>
        let (names, calls4) = get_producer_names obj_repr sf (set_list producer_ids) calls3
        in case names of
             Inl e \<Rightarrow> (Inl e, calls4)
           | Inr producer_names \<Rightarrow>
        (case with_producer_loop producer_names with_prod [] of
             Inl e \<Rightarrow> (Inl e, calls4)
           | Inr producer_data \<Rightarrow>
        (case without_producer_loop without_prod producer_data of
             Inl e \<Rightarrow> (Inl e, calls4)
           | Inr producer_data' \<Rightarrow> (Inr (lob_data, producer_data'), calls4))))))"

text \<open>
  The function returns the two tables; beside them the model gives the exception shown
  to the user by \<^verbatim>\<open>st.error\<close>, if any, and the queries issued.
\<close>

definition connect_sf_and_query ::
  "(pydict \<Rightarrow> string) \<Rightarrow> (pyval list \<Rightarrow> pyval list) \<Rightarrow> salesforce option \<Rightarrow> date \<Rightarrow> date
    \<Rightarrow> string list \<Rightarrow> (lob_row list \<times> producer_row list) \<times> exn option \<times> string list" where
  "connect_sf_and_query obj_repr set_list session_sf start_date end_date calls =
    (case try_block obj_repr set_list session_sf start_date end_date calls of
       (Inr tables, calls') \<Rightarrow> (tables, None, calls')
     | (Inl e, calls') \<Rightarrow> (([], []), Some e, calls'))"

section \<open>Grouping for the charts\<close>


definition groupby_sum :: "(string \<times> 64 word) list \<Rightarrow> (string \<times> 64 word) list" where
  "groupby_sum rows =
    map (\<lambda>k. (k, sum_list (map snd (filter (\<lambda>r. fst r = k) rows))))
      (sort (remdups (map fst rows)))"



section \<open>Responses of the expected shape\<close>

text \<open>
  The responses on which a run raises nothing: the three queries are answered, every
  \<^verbatim>\<open>Type\<close> and every \<^verbatim>\<open>Producer__c\<close> is hashable, every \<^verbatim>\<open>Owner\<close> is an object or
  empty, every count is an integer, and the lookup of the producers of query 2 returns
  a mapping.
\<close>

definition clean_responses ::
  "(pydict \<Rightarrow> string) \<Rightarrow> (pyval list \<Rightarrow> pyval list) \<Rightarrow> salesforce \<Rightarrow> date \<Rightarrow> date \<Rightarrow> bool" where
  "clean_responses obj_repr set_list sf start_date end_date =
    (case (sf (type_query start_date end_date),
           sf (query_with_producer start_date end_date),
           sf (query_without_producer start_date end_date)) of
       (Inr type_records, Inr with_prod, Inr without_prod) \<Rightarrow>
          list_all (\<lambda>rec. hashable (dict_get rec ''Type'' (PStr ''Other'')))
            (type_records @ with_prod @ without_prod)
        \<and> list_all (\<lambda>rec. case dict_get rec ''oppCount'' (PInt 0) of PInt n \<Rightarrow> True | _ \<Rightarrow> False)
            (type_records @ with_prod @ without_prod)
        \<and> list_all (\<lambda>rec. hashable (dict_get rec ''Producer__c'' PNone)) with_prod
        \<and> list_all (\<lambda>rec. case dict_get rec ''Owner'' PNone of
                             PDict d \<Rightarrow> True | v \<Rightarrow> \<not> truthy v) without_prod
        \<and> (case fst (get_producer_names obj_repr sf
                      (set_list (filter truthy
                         (map (\<lambda>rec. dict_get rec ''Producer__c'' PNone) with_prod))) []) of
             Inr producer_names \<Rightarrow> True
           | Inl e \<Rightarrow> False)
     | _ \<Rightarrow> False)"

section \<open>Sample responses\<close>

text \<open>Concrete stores on which the functions are run: one day, and answers to its queries.\<close>

definition demo_day :: date where
  "demo_day = \<lparr>year = 2024, month = 3, day = 5\<rparr>"

definition early_day :: date where
  "early_day = \<lparr>year = 999, month = 1, day = 2\<rparr>"

definition demo_repr :: "pydict \<Rightarrow> string" where
  "demo_repr d = ''<object>''"

text \<open>Query 2 has one row for producer \<open>P1\<close>, whom the lookup does not return.\<close>

definition boat_store :: salesforce where
  "boat_store query =
    (if query = query_with_producer demo_day demo_day
     then Inr [[(''Producer__c'', PStr ''P1''), (''Type'', PStr ''Boat''), (''oppCount'', PInt 3)]]
     else Inr [])"

text \<open>A store with rows for all three queries; the lookup returns producer \<open>P2\<close> only.\<close>

definition sample_store :: salesforce where
  "sample_store query =
    (if query = type_query demo_day demo_day then
       Inr [[(''Type'', PStr ''Homeowners''), (''oppCount'', PInt 5)],
            [(''Type'', PStr ''Yacht''), (''oppCount'', PInt 4)],
            [(''Type'', PNone), (''oppCount'', PInt 1)],
            [(''Type'', PStr ''Watercraft''), (''oppCount'', PInt 6)]]
     else if query = query_with_producer demo_day demo_day then
       Inr [[(''Producer__c'', PStr ''P1''), (''Type'', PStr ''Boat''), (''oppCount'', PInt 3)],
            [(''Producer__c'', PStr ''P2''), (''Type'', PStr ''Yacht''), (''oppCount'', PInt 1)]]
     else if query = query_without_producer demo_day demo_day then
       Inr [[(''Owner'', PDict [(''Name'', PStr ''Ann Lee'')]), (''Type'', PStr ''Homeowners''),
             (''oppCount'', PInt 2)],
            [(''Owner'', PNone), (''Type'', PStr ''Life''), (''oppCount'', PInt 1)]]
     else
       Inr [[(''Id'', PStr ''P2''),
             (''InternalUser'', PDict [(''FirstName'', PStr ''Jane''), (''LastName'', PStr ''Doe'')])]])"

text \<open>The same store, whose third query is refused.\<close>

definition failing_store :: salesforce where
  "failing_store query =
    (if query = query_without_producer demo_day demo_day
     then Inl (SalesforceError ''INVALID_FIELD'')
     else sample_store query)"


text \<open>A lookup that returns a producer whose user has no first and no last name.\<close>

definition nameless_store :: salesforce where
  "nameless_store query =
    Inr [[(''Id'', PStr ''P1''),
          (''InternalUser'', PDict [(''FirstName'', PNone), (''LastName'', PNone)])]]"

section \<open>Properties of the category mapper\<close>

lemma py_dict_foldl:
  "foldl (\<lambda>m (k, v). m(k \<mapsto> v)) m0 kvs = m0 ++ map_of (rev kvs)"
  by (induction kvs arbitrary: m0) (auto simp: map_add_def fun_eq_iff split: option.splits)

lemma py_dict_map_of_rev: "py_dict kvs = map_of (rev kvs)"
  by (simp add: py_dict_def py_dict_foldl)

lemma py_dict_distinct:
  assumes "distinct (map fst kvs)"
  shows "py_dict kvs = map_of kvs"
proof (rule ext)
  fix k
  show "py_dict kvs k = map_of kvs k"
  proof (cases "map_of kvs k")
    case None
    then have "k \<notin> fst ` set kvs" by (simp add: map_of_eq_None_iff)
    then have "map_of (rev kvs) k = None" by (simp add: map_of_eq_None_iff)
    with None show ?thesis by (simp add: py_dict_map_of_rev)
  next
    case (Some v)
    then have "(k, v) \<in> set (rev kvs)" by (auto dest: map_of_SomeD)
    moreover have "distinct (map fst (rev kvs))"
      using assms by (simp add: rev_map [symmetric])
    ultimately have "map_of (rev kvs) k = Some v" by (rule map_of_is_SomeI [rotated])
    with Some show ?thesis by (simp add: py_dict_map_of_rev)
  qed
qed

lemma LOB_MAPPING_keys_distinct: "distinct (map fst LOB_MAPPING_entries)"
  unfolding LOB_MAPPING_entries_def by simp

lemma LOB_MAPPING_map_of: "LOB_MAPPING = map_of LOB_MAPPING_entries"
  unfolding LOB_MAPPING_def by (rule py_dict_distinct [OF LOB_MAPPING_keys_distinct])

text \<open>
  C1. The category mapper is total on strings: it always returns a category, never raises;
  for a key of the rule table the category is the one the table gives, and for any other
  string it is the default \<open>Other\<close>.
\<close>

theorem map_lob_total:
  "\<exists>c. map_lob (PStr s) = Inr c
     \<and> (\<forall>v. (s, v) \<in> set LOB_MAPPING_entries \<longrightarrow> c = v)
     \<and> (s \<notin> fst ` set LOB_MAPPING_entries \<longrightarrow> c = ''Other'')"
proof (cases "map_of LOB_MAPPING_entries s")
  case None
  then have "s \<notin> fst ` set LOB_MAPPING_entries"
    by (simp add: map_of_eq_None_iff)
  then have "(s, v) \<notin> set LOB_MAPPING_entries" for v
    by force
  with None show ?thesis
    by (simp add: map_lob_def LOB_MAPPING_map_of)
next
  case (Some c)
  have "v = c" if "(s, v) \<in> set LOB_MAPPING_entries" for v
    using that Some map_of_is_SomeI [OF LOB_MAPPING_keys_distinct that] by simp
  moreover have "s \<in> fst ` set LOB_MAPPING_entries"
    using Some by (metis map_of_eq_None_iff option.distinct(1))
  ultimately show ?thesis
    using Some by (auto simp: map_lob_def LOB_MAPPING_map_of)
qed

theorem map_lob_total_witness:
  "map_lob (PStr ''Watercraft'') = Inr ''Boat'' \<and> map_lob (PStr ''Zeppelin'') = Inr ''Other''"
  using map_lob_total [of "''Watercraft''"] map_lob_total [of "''Zeppelin''"]
  by (auto simp: LOB_MAPPING_entries_def)

text \<open>
  C9. The mapper returns \<open>Homeowners\<close> for \<open>Homeowners\<close>, \<open>Boat\<close> for \<open>Yacht\<close> and
  \<open>Other\<close> for \<open>unknown-xyz\<close>.
\<close>

theorem map_lob_examples:
  "map_lob (PStr ''Homeowners'') = Inr ''Homeowners''
   \<and> map_lob (PStr ''Yacht'') = Inr ''Boat''
   \<and> map_lob (PStr ''unknown-xyz'') = Inr ''Other''"
  by (simp add: map_lob_def LOB_MAPPING_def py_dict_def LOB_MAPPING_entries_def)


section \<open>Properties of the loops\<close>

lemma map_lob_range:
  assumes "map_lob v = Inr c"
  shows "c \<in> {''Homeowners'', ''Personal Auto'', ''Boat'', ''Umbrella'', ''Inland Marine'',
              ''Commercial'', ''Other''}"
proof (cases v)
  case (PStr s)
  show ?thesis
  proof (cases "map_of LOB_MAPPING_entries s")
    case None
    with PStr assms show ?thesis by (simp add: map_lob_def LOB_MAPPING_map_of)
  next
    case (Some c')
    with PStr assms have "c' = c" by (simp add: map_lob_def LOB_MAPPING_map_of)
    with Some have "(s, c) \<in> set LOB_MAPPING_entries" by (auto dest: map_of_SomeD)
    then show ?thesis unfolding LOB_MAPPING_entries_def by auto
  qed
qed (use assms in \<open>auto simp: map_lob_def\<close>)

lemma lob_loop_rows:
  "lob_loop recs acc = Inr out \<Longrightarrow>
    \<exists>rows. out = acc @ rows \<and>
      list_all2 (\<lambda>rec row. Type row = dict_get rec ''Type'' (PStr ''Other'')
                   \<and> map_lob (Type row) = Inr (LOB_Category row)
                   \<and> Count row = dict_get rec ''oppCount'' (PInt 0)) recs rows"
proof (induction recs arbitrary: acc)
  case Nil
  then show ?case by simp
next
  case (Cons rec recs)
  then show ?case
    by (fastforce simp: Let_def split: sum.splits)
qed

lemma with_producer_loop_rows:
  "with_producer_loop producer_names recs acc = Inr out \<Longrightarrow>
    \<exists>rows. out = acc @ rows \<and>
      list_all2 (\<lambda>rec row.
          Producer row = (case producer_names (dict_get rec ''Producer__c'' PNone) of
                            Some n \<Rightarrow> PStr n | None \<Rightarrow> PStr ''Name Not Provided'')
        \<and> Type row = dict_get rec ''Type'' (PStr ''Other'')
        \<and> map_lob (Type row) = Inr (LOB_Category row)
        \<and> Count row = dict_get rec ''oppCount'' (PInt 0)) recs rows"
proof (induction recs arbitrary: acc)
  case Nil
  then show ?case by simp
next
  case (Cons rec recs)
  then show ?case
    by (fastforce simp: Let_def split: sum.splits if_splits)
qed

lemma without_producer_loop_rows:
  "without_producer_loop recs acc = Inr out \<Longrightarrow>
    \<exists>rows. out = acc @ rows \<and>
      list_all2 (\<lambda>rec row.
          Producer row = (case dict_get rec ''Owner'' PNone of
                            PDict d \<Rightarrow> dict_get d ''Name'' (PStr ''Name Not Provided'')
                          | _ \<Rightarrow> PStr ''Name Not Provided'')
        \<and> Type row = dict_get rec ''Type'' (PStr ''Other'')
        \<and> map_lob (Type row) = Inr (LOB_Category row)
        \<and> Count row = dict_get rec ''oppCount'' (PInt 0)) recs rows"
proof (induction recs arbitrary: acc)
  case Nil
  then show ?case by simp
next
  case (Cons rec recs)
  then show ?case
    by (fastforce simp: Let_def dict_get_def split: sum.splits if_splits pyval.splits option.splits)
qed

lemma get_producer_names_calls:
  assumes "get_producer_names obj_repr sf ids calls = (Inr m, calls')"
  shows "calls' = calls \<or>
    (\<exists>recs. calls' = calls @ [producer_query (id_list obj_repr ids)]
       \<and> sf (producer_query (id_list obj_repr ids)) = Inr recs)"
  using assms
  by (auto simp: get_producer_names_def query_all_def Let_def split: if_splits sum.splits)

lemma try_block_success:
  assumes "try_block obj_repr set_list (Some sf) s e calls = (Inr (lob_df, producer_df), calls')"
  shows "\<exists>type_records with_prod without_prod ids producer_names producer_data.
      sf (type_query s e) = Inr type_records
    \<and> lob_loop type_records [] = Inr lob_df
    \<and> sf (query_with_producer s e) = Inr with_prod
    \<and> sf (query_without_producer s e) = Inr without_prod
    \<and> producer_id_set with_prod = Inr ids
    \<and> get_producer_names obj_repr sf (set_list ids)
          (calls @ [type_query s e, query_with_producer s e, query_without_producer s e])
        = (Inr producer_names, calls')
    \<and> with_producer_loop producer_names with_prod [] = Inr producer_data
    \<and> without_producer_loop without_prod producer_data = Inr producer_df"
  using assms
  by (auto simp: try_block_def query_all_def Let_def split: sum.splits prod.splits)

section \<open>Properties of the grouping\<close>



lemma groupby_sum_keys:
  "map fst (groupby_sum rows) = sort (remdups (map fst rows))"
  by (simp add: groupby_sum_def comp_def)








section \<open>Sample runs\<close>

lemma queries_differ:
  "type_query s e \<noteq> query_with_producer s e"
  "type_query s e \<noteq> query_without_producer s e"
  "query_with_producer s e \<noteq> query_without_producer s e"
  "producer_query ids \<noteq> type_query s e"
  "producer_query ids \<noteq> query_with_producer s e"
  "producer_query ids \<noteq> query_without_producer s e"
  by (simp_all add: type_query_def query_with_producer_def query_without_producer_def
      producer_query_def)

lemma map_lob_samples:
  "map_lob (PStr ''Boat'') = Inr ''Boat''"
  "map_lob (PStr ''Yacht'') = Inr ''Boat''"
  "map_lob (PStr ''Watercraft'') = Inr ''Boat''"
  "map_lob (PStr ''Homeowners'') = Inr ''Homeowners''"
  "map_lob (PStr ''Life'') = Inr ''Other''"
  "map_lob PNone = Inr ''Other''"
  by (simp_all add: map_lob_def LOB_MAPPING_def py_dict_def LOB_MAPPING_entries_def)

lemma strip_samples:
  "strip ''Jane Doe'' = ''Jane Doe''"
  "strip ''None None'' = ''None None''"
  "strip '' '' = []"
  by (simp_all add: strip_def space1_def space2_def space3_def)

lemma boat_run:
  "connect_sf_and_query demo_repr remdups (Some boat_store) demo_day demo_day [] =
    (([], [\<lparr>Type = PStr ''Boat'', LOB_Category = ''Boat'', Count = PInt 3,
             Producer = PStr ''Name Not Provided''\<rparr>]),
     None,
     [type_query demo_day demo_day, query_with_producer demo_day demo_day,
      query_without_producer demo_day demo_day, producer_query [CHR 0x27, CHR ''P'', CHR ''1'', CHR 0x27]])"
  using queries_differ(1-3) [of demo_day demo_day]
    queries_differ(4-6) [of "[CHR 0x27, CHR ''P'', CHR ''1'', CHR 0x27]" demo_day demo_day]
  by (simp add: connect_sf_and_query_def try_block_def query_all_def boat_store_def
      get_producer_names_def dict_get_def map_lob_samples id_list_def)

lemma sample_run:
  "connect_sf_and_query demo_repr remdups (Some sample_store) demo_day demo_day [] =
    (([\<lparr>Type = PStr ''Homeowners'', LOB_Category = ''Homeowners'', Count = PInt 5\<rparr>,
       \<lparr>Type = PStr ''Yacht'', LOB_Category = ''Boat'', Count = PInt 4\<rparr>,
       \<lparr>Type = PNone, LOB_Category = ''Other'', Count = PInt 1\<rparr>,
       \<lparr>Type = PStr ''Watercraft'', LOB_Category = ''Boat'', Count = PInt 6\<rparr>],
      [\<lparr>Type = PStr ''Boat'', LOB_Category = ''Boat'', Count = PInt 3,
         Producer = PStr ''Name Not Provided''\<rparr>,
       \<lparr>Type = PStr ''Yacht'', LOB_Category = ''Boat'', Count = PInt 1,
         Producer = PStr ''Jane Doe''\<rparr>,
       \<lparr>Type = PStr ''Homeowners'', LOB_Category = ''Homeowners'', Count = PInt 2,
         Producer = PStr ''Ann Lee''\<rparr>,
       \<lparr>Type = PStr ''Life'', LOB_Category = ''Other'', Count = PInt 1,
         Producer = PStr ''Name Not Provided''\<rparr>]),
     None,
     [type_query demo_day demo_day, query_with_producer demo_day demo_day,
      query_without_producer demo_day demo_day,
      producer_query (id_list demo_repr [PStr ''P1'', PStr ''P2''])])"
  using queries_differ(1-3) [of demo_day demo_day]
    queries_differ(4-6) [of "id_list demo_repr [PStr ''P1'', PStr ''P2'']" demo_day demo_day]
  by (simp add: connect_sf_and_query_def try_block_def query_all_def sample_store_def
      get_producer_names_def dict_get_def map_lob_samples producer_entry_def strip_samples)

lemma failing_run:
  "connect_sf_and_query demo_repr remdups (Some failing_store) demo_day demo_day [] =
    (([], []), Some (SalesforceError ''INVALID_FIELD''),
     [type_query demo_day demo_day, query_with_producer demo_day demo_day,
      query_without_producer demo_day demo_day])"
  using queries_differ(1-3) [of demo_day demo_day]
  by (simp add: connect_sf_and_query_def try_block_def query_all_def failing_store_def sample_store_def
      dict_get_def map_lob_samples)

section \<open>Properties of a report run\<close>

text \<open>
  C7. Called with no identifiers, the producer resolver returns the empty mapping and
  issues no query: the list of calls is unchanged.
\<close>

theorem get_producer_names_empty:
  "get_producer_names obj_repr sf [] calls = (Inr Map.empty, calls)"
  by (simp add: get_producer_names_def)

lemma try_block_issued:
  assumes "try_block obj_repr set_list (Some sf) s e calls = (Inr tables, calls')"
  shows "\<exists>issued. calls' = calls @ issued \<and> (\<forall>query \<in> set issued. \<exists>recs. sf query = Inr recs)"
proof -
  obtain lob_df producer_df where "tables = (lob_df, producer_df)" by (cases tables)
  with try_block_success [of obj_repr set_list sf s e calls lob_df producer_df calls'] assms
  obtain ids producer_names type_records with_prod without_prod where
    q: "sf (type_query s e) = Inr type_records" "sf (query_with_producer s e) = Inr with_prod"
       "sf (query_without_producer s e) = Inr without_prod"
    and g: "get_producer_names obj_repr sf (set_list ids)
          (calls @ [type_query s e, query_with_producer s e, query_without_producer s e])
        = (Inr producer_names, calls')"
    by blast
  from get_producer_names_calls [OF g] show ?thesis
  proof
    assume "calls' = calls @ [type_query s e, query_with_producer s e, query_without_producer s e]"
    with q show ?thesis by auto
  next
    assume "\<exists>recs. calls' = (calls @ [type_query s e, query_with_producer s e, query_without_producer s e])
              @ [producer_query (id_list obj_repr (set_list ids))]
            \<and> sf (producer_query (id_list obj_repr (set_list ids))) = Inr recs"
    then obtain recs where
      c: "calls' = calls @ [type_query s e, query_with_producer s e, query_without_producer s e,
            producer_query (id_list obj_repr (set_list ids))]"
      and r: "sf (producer_query (id_list obj_repr (set_list ids))) = Inr recs"
      by auto
    show ?thesis
      by (rule exI [of _ "[type_query s e, query_with_producer s e, query_without_producer s e,
            producer_query (id_list obj_repr (set_list ids))]"]) (use c q r in auto)
  qed
qed

text \<open>
  C3. If a query issued during a report run fails, whether one of the three aggregation
  queries or the producer lookup, the run returns two empty tables and shows the error;
  no row of the queries that succeeded is returned.
\<close>

theorem failed_query_gives_empty_tables:
  assumes "connect_sf_and_query obj_repr set_list (Some sf) start_date end_date calls
            = ((lob_df, producer_df), shown, calls')"
    and "\<exists>query \<in> set (drop (length calls) calls'). \<exists>e. sf query = Inl e"
  shows "lob_df = [] \<and> producer_df = [] \<and> shown \<noteq> None"
proof (cases "try_block obj_repr set_list (Some sf) start_date end_date calls")
  case (Pair res calls'')
  show ?thesis
  proof (cases res)
    case (Inl e)
    with Pair assms(1) show ?thesis by (auto simp: connect_sf_and_query_def)
  next
    case (Inr tables)
    with Pair assms(1) have "calls'' = calls'" by (simp add: connect_sf_and_query_def)
    with Pair Inr have "try_block obj_repr set_list (Some sf) start_date end_date calls = (Inr tables, calls')"
      by simp
    from try_block_issued [OF this] obtain issued where
      "calls' = calls @ issued" "\<forall>query \<in> set issued. \<exists>recs. sf query = Inr recs" by blast
    with assms(2) show ?thesis by auto
  qed
qed

theorem failed_query_gives_empty_tables_witness:
  "(\<exists>query \<in> set (drop (length ([] :: string list)) [type_query demo_day demo_day, query_with_producer demo_day demo_day,
      query_without_producer demo_day demo_day]). \<exists>e. failing_store query = Inl e)
   \<and> fst (connect_sf_and_query demo_repr remdups (Some failing_store) demo_day demo_day []) = ([], [])"
proof -
  have h: "\<exists>query \<in> set (drop (length ([] :: string list)) [type_query demo_day demo_day,
      query_with_producer demo_day demo_day, query_without_producer demo_day demo_day]).
      \<exists>e. failing_store query = Inl e"
    by (simp add: failing_store_def)
  from failed_query_gives_empty_tables [OF failing_run h] h failing_run show ?thesis by simp
qed

lemma list_all2_setD:
  assumes "list_all2 P xs ys" and "y \<in> set ys"
  shows "\<exists>x \<in> set xs. P x y"
  using assms by (induction rule: list_all2_induct) auto

text \<open>
  C10. Every row of both tables returned by a report run has one of the seven categories,
  whatever values the responses hold.
\<close>

theorem categories_closed:
  assumes "connect_sf_and_query obj_repr set_list session_sf start_date end_date calls
            = ((lob_df, producer_df), shown, calls')"
  shows "(\<forall>row \<in> set lob_df. LOB_Category row \<in> {''Homeowners'', ''Personal Auto'', ''Boat'',
            ''Umbrella'', ''Inland Marine'', ''Commercial'', ''Other''})
       \<and> (\<forall>row \<in> set producer_df. LOB_Category row \<in> {''Homeowners'', ''Personal Auto'', ''Boat'',
            ''Umbrella'', ''Inland Marine'', ''Commercial'', ''Other''})"
proof (cases "try_block obj_repr set_list session_sf start_date end_date calls")
  case (Pair res calls'')
  show ?thesis
  proof (cases res)
    case (Inl e)
    with Pair assms show ?thesis by (simp add: connect_sf_and_query_def)
  next
    case (Inr tables)
    with Pair assms have t: "try_block obj_repr set_list session_sf start_date end_date calls
        = (Inr (lob_df, producer_df), calls')"
      by (simp add: connect_sf_and_query_def)
    then obtain sf where sf: "session_sf = Some sf"
      by (cases session_sf) (simp_all add: try_block_def)
    from try_block_success [OF t [unfolded sf]]
    obtain type_records with_prod without_prod producer_names producer_data where
      l: "lob_loop type_records [] = Inr lob_df"
      and w: "with_producer_loop producer_names with_prod [] = Inr producer_data"
      and wo: "without_producer_loop without_prod producer_data = Inr producer_df"
      by blast
    have lob: "LOB_Category row \<in> {''Homeowners'', ''Personal Auto'', ''Boat'',
            ''Umbrella'', ''Inland Marine'', ''Commercial'', ''Other''}" if "row \<in> set lob_df" for row
    proof -
      from lob_loop_rows [OF l] that obtain rec where "map_lob (Type row) = Inr (LOB_Category row)"
        by (auto dest: list_all2_setD)
      then show ?thesis by (rule map_lob_range)
    qed
    have prod: "LOB_Category row \<in> {''Homeowners'', ''Personal Auto'', ''Boat'',
            ''Umbrella'', ''Inland Marine'', ''Commercial'', ''Other''}" if "row \<in> set producer_df" for row
    proof -
      from with_producer_loop_rows [OF w] without_producer_loop_rows [OF wo] that
      have "map_lob (Type row) = Inr (LOB_Category row)"
        by (auto dest: list_all2_setD)
      then show ?thesis by (rule map_lob_range)
    qed
    from lob prod show ?thesis by blast
  qed
qed

theorem categories_closed_witness:
  "set (map LOB_Category (fst (fst (connect_sf_and_query demo_repr remdups (Some sample_store) demo_day demo_day []))))
      \<subseteq> {''Homeowners'', ''Personal Auto'', ''Boat'', ''Umbrella'', ''Inland Marine'', ''Commercial'', ''Other''}
   \<and> set (map LOB_Category (snd (fst (connect_sf_and_query demo_repr remdups (Some sample_store) demo_day demo_day []))))
      \<subseteq> {''Homeowners'', ''Personal Auto'', ''Boat'', ''Umbrella'', ''Inland Marine'', ''Commercial'', ''Other''}
   \<and> fst (fst (connect_sf_and_query demo_repr remdups (Some sample_store) demo_day demo_day [])) \<noteq> []
   \<and> snd (fst (connect_sf_and_query demo_repr remdups (Some sample_store) demo_day demo_day [])) \<noteq> []"
  using categories_closed [OF sample_run] by (simp add: sample_run)

section \<open>Runs on responses of the expected shape\<close>

lemma map_lob_hashable: "hashable v \<Longrightarrow> \<exists>c. map_lob v = Inr c"
  by (cases v) (simp_all add: map_lob_def)

lemma lob_loop_total:
  "\<forall>rec \<in> set recs. hashable (dict_get rec ''Type'' (PStr ''Other'')) \<Longrightarrow>
     \<exists>out. lob_loop recs acc = Inr out"
proof (induction recs arbitrary: acc)
  case Nil
  then show ?case by simp
next
  case (Cons rec recs)
  from Cons.prems obtain c where "map_lob (dict_get rec ''Type'' (PStr ''Other'')) = Inr c"
    using map_lob_hashable by force
  with Cons show ?case by (simp add: Let_def)
qed

lemma producer_id_set_clean:
  "\<forall>rec \<in> set recs. hashable (dict_get rec ''Producer__c'' PNone) \<Longrightarrow>
     producer_id_set recs
       = Inr (filter truthy (map (\<lambda>rec. dict_get rec ''Producer__c'' PNone) recs))"
  by (induction recs) (simp_all add: Let_def)

lemma with_producer_loop_total:
  "\<forall>rec \<in> set recs. hashable (dict_get rec ''Producer__c'' PNone)
       \<and> hashable (dict_get rec ''Type'' (PStr ''Other'')) \<Longrightarrow>
     \<exists>out. with_producer_loop producer_names recs acc = Inr out"
proof (induction recs arbitrary: acc)
  case Nil
  then show ?case by simp
next
  case (Cons rec recs)
  from Cons.prems obtain c where "map_lob (dict_get rec ''Type'' (PStr ''Other'')) = Inr c"
    using map_lob_hashable by force
  with Cons show ?case by (simp add: Let_def)
qed

lemma without_producer_loop_total:
  "\<forall>rec \<in> set recs. hashable (dict_get rec ''Type'' (PStr ''Other''))
       \<and> (case dict_get rec ''Owner'' PNone of PDict d \<Rightarrow> True | v \<Rightarrow> \<not> truthy v) \<Longrightarrow>
     \<exists>out. without_producer_loop recs acc = Inr out"
proof (induction recs arbitrary: acc)
  case Nil
  then show ?case by simp
next
  case (Cons rec recs)
  from Cons.prems obtain c where c: "map_lob (dict_get rec ''Type'' (PStr ''Other'')) = Inr c"
    using map_lob_hashable by force
  from Cons.prems have "case dict_get rec ''Owner'' PNone of PDict d \<Rightarrow> True | v \<Rightarrow> \<not> truthy v"
    by simp
  with c Cons show ?case
    by (cases "dict_get rec ''Owner'' PNone") (simp_all add: Let_def)
qed

lemma get_producer_names_fst:
  "fst (get_producer_names obj_repr sf ids calls) = fst (get_producer_names obj_repr sf ids [])"
  by (simp add: get_producer_names_def query_all_def Let_def split: sum.splits)

lemma clean_run_succeeds:
  assumes "clean_responses obj_repr set_list sf s e"
  shows "\<exists>lob_df producer_df rest.
     connect_sf_and_query obj_repr set_list (Some sf) s e calls
       = ((lob_df, producer_df), None,
          calls @ [type_query s e, query_with_producer s e, query_without_producer s e] @ rest)"
proof -
  let ?pid = "\<lambda>rec. dict_get rec ''Producer__c'' PNone"
  let ?calls3 = "calls @ [type_query s e, query_with_producer s e, query_without_producer s e]"
  from assms obtain type_records with_prod without_prod where
    q: "sf (type_query s e) = Inr type_records" "sf (query_with_producer s e) = Inr with_prod"
       "sf (query_without_producer s e) = Inr without_prod"
    by (auto simp: clean_responses_def split: sum.splits)
  with assms have
    t: "\<forall>rec \<in> set (type_records @ with_prod @ without_prod).
          hashable (dict_get rec ''Type'' (PStr ''Other''))"
    and p: "\<forall>rec \<in> set with_prod. hashable (?pid rec)"
    and ow: "\<forall>rec \<in> set without_prod.
          (case dict_get rec ''Owner'' PNone of PDict d \<Rightarrow> True | v \<Rightarrow> \<not> truthy v)"
    and g: "\<exists>names. fst (get_producer_names obj_repr sf
                      (set_list (filter truthy (map ?pid with_prod))) []) = Inr names"
    by (auto simp: clean_responses_def list_all_iff split: sum.splits)
  from t obtain lob_df where l: "lob_loop type_records [] = Inr lob_df"
    using lob_loop_total [of type_records "[]"] by auto
  from p have ids: "producer_id_set with_prod = Inr (filter truthy (map ?pid with_prod))"
    by (rule producer_id_set_clean)
  from g obtain names calls' where
    n: "get_producer_names obj_repr sf (set_list (filter truthy (map ?pid with_prod))) ?calls3
          = (Inr names, calls')"
    using get_producer_names_fst
      [of obj_repr sf "set_list (filter truthy (map ?pid with_prod))" ?calls3]
    by (cases "get_producer_names obj_repr sf (set_list (filter truthy (map ?pid with_prod))) ?calls3")
      auto
  from get_producer_names_calls [OF n] obtain rest where rest: "calls' = ?calls3 @ rest"
    by auto
  from t p obtain rows2 where w: "with_producer_loop names with_prod [] = Inr rows2"
    using with_producer_loop_total [of with_prod names "[]"] by auto
  from t ow obtain producer_df where wo: "without_producer_loop without_prod rows2 = Inr producer_df"
    using without_producer_loop_total [of without_prod rows2] by auto
  have "connect_sf_and_query obj_repr set_list (Some sf) s e calls
      = ((lob_df, producer_df), None, ?calls3 @ rest)"
    using q l ids n w wo rest
    by (simp add: connect_sf_and_query_def try_block_def query_all_def)
  then show ?thesis by auto
qed

section \<open>The producer table\<close>



lemma sample_lookup:
  "get_producer_names demo_repr sample_store [PStr ''P1'', PStr ''P2''] calls
     = (Inr [PStr ''P2'' \<mapsto> ''Jane Doe''],
        calls @ [producer_query (id_list demo_repr [PStr ''P1'', PStr ''P2''])])"
  using queries_differ(4-6) [of "id_list demo_repr [PStr ''P1'', PStr ''P2'']" demo_day demo_day]
  by (simp add: get_producer_names_def query_all_def sample_store_def producer_entry_def
      dict_get_def strip_samples)

lemma sample_clean: "clean_responses demo_repr remdups sample_store demo_day demo_day"
  using queries_differ(1-3) [of demo_day demo_day]
  by (simp add: clean_responses_def sample_store_def dict_get_def sample_lookup)


section \<open>Conservation of counts\<close>









section \<open>Producers the lookup does not return\<close>

lemma producer_entry_key:
  "producer_entry obj_repr rec = Inr (pid, full_name) \<Longrightarrow> pid = dict_get rec ''Id'' PNone"
  by (auto simp: producer_entry_def Let_def split: pyval.splits if_splits)

lemma producer_loop_dom:
  "producer_loop obj_repr recs m0 = Inr m \<Longrightarrow>
     dom m = dom m0 \<union> (\<lambda>rec. dict_get rec ''Id'' PNone) ` set recs"
proof (induction recs arbitrary: m0)
  case Nil
  then show ?case by simp
next
  case (Cons rec recs)
  from Cons.prems obtain pid full_name where
    e: "producer_entry obj_repr rec = Inr (pid, full_name)"
    and l: "producer_loop obj_repr recs (m0(pid \<mapsto> full_name)) = Inr m"
    by (auto split: sum.splits)
  from Cons.IH [OF l] producer_entry_key [OF e] show ?case by auto
qed

lemma get_producer_names_dom:
  assumes "get_producer_names obj_repr sf ids calls = (Inr m, calls')"
    and "sf (producer_query (id_list obj_repr ids)) = Inr recs"
  shows "dom m \<subseteq> (\<lambda>rec. dict_get rec ''Id'' PNone) ` set recs"
proof (cases "ids = []")
  case True
  with assms(1) show ?thesis by (auto simp: get_producer_names_def)
next
  case False
  with assms have "producer_loop obj_repr recs Map.empty = Inr m"
    by (simp add: get_producer_names_def query_all_def)
  from producer_loop_dom [OF this] show ?thesis by simp
qed

lemma with_producer_loop_sentinel:
  assumes "with_producer_loop producer_names with_prod [] = Inr rows"
    and "i < length with_prod"
    and "producer_names (dict_get (with_prod ! i) ''Producer__c'' PNone) = None"
  shows "Producer (rows ! i) = PStr ''Name Not Provided''"
proof -
  from with_producer_loop_rows [OF assms(1)] have
    "list_all2 (\<lambda>rec row.
          Producer row = (case producer_names (dict_get rec ''Producer__c'' PNone) of
                            Some n \<Rightarrow> PStr n | None \<Rightarrow> PStr ''Name Not Provided'')
        \<and> Type row = dict_get rec ''Type'' (PStr ''Other'')
        \<and> map_lob (Type row) = Inr (LOB_Category row)
        \<and> Count row = dict_get rec ''oppCount'' (PInt 0)) with_prod rows"
    by auto
  from list_all2_nthD [OF this assms(2)] assms(3) show ?thesis by simp
qed

text \<open>
  C5. An id that the lookup does not return is not a key of the mapping built by the
  resolver, and a query-2 row whose id is not a key of the mapping gets the sentinel as
  producer. On the store whose query 2 has the row \<open>P1\<close>, \<open>Boat\<close>, 3 and whose lookup returns
  nothing, the resolver gives the empty mapping and the producer table is the single row
  with the sentinel, category \<open>Boat\<close> and count 3.
\<close>

theorem unresolved_producer_gets_sentinel:
  "(\<forall>m calls' recs pid.
       get_producer_names obj_repr sf ids calls = (Inr m, calls')
       \<and> sf (producer_query (id_list obj_repr ids)) = Inr recs
       \<and> pid \<notin> (\<lambda>rec. dict_get rec ''Id'' PNone) ` set recs
       \<longrightarrow> m pid = None)
   \<and> (\<forall>rows i.
       with_producer_loop producer_names with_prod [] = Inr rows
       \<and> i < length with_prod
       \<and> producer_names (dict_get (with_prod ! i) ''Producer__c'' PNone) = None
       \<longrightarrow> Producer (rows ! i) = PStr ''Name Not Provided'')
   \<and> boat_store (query_with_producer demo_day demo_day)
       = Inr [[(''Producer__c'', PStr ''P1''), (''Type'', PStr ''Boat''), (''oppCount'', PInt 3)]]
   \<and> fst (get_producer_names demo_repr boat_store [PStr ''P1''] calls) = Inr Map.empty
   \<and> snd (fst (connect_sf_and_query demo_repr remdups (Some boat_store) demo_day demo_day []))
       = [\<lparr>Type = PStr ''Boat'', LOB_Category = ''Boat'', Count = PInt 3,
            Producer = PStr ''Name Not Provided''\<rparr>]"
proof -
  have a: "m pid = None"
    if "get_producer_names obj_repr sf ids calls = (Inr m, calls')"
      and "sf (producer_query (id_list obj_repr ids)) = Inr recs"
      and "pid \<notin> (\<lambda>rec. dict_get rec ''Id'' PNone) ` set recs"
    for m calls' recs pid
    using get_producer_names_dom [OF that(1,2)] that(3) by blast
  have b: "Producer (rows ! i) = PStr ''Name Not Provided''"
    if "with_producer_loop producer_names with_prod [] = Inr rows"
      and "i < length with_prod"
      and "producer_names (dict_get (with_prod ! i) ''Producer__c'' PNone) = None"
    for rows i
    using that by (rule with_producer_loop_sentinel)
  have c: "boat_store (query_with_producer demo_day demo_day)
       = Inr [[(''Producer__c'', PStr ''P1''), (''Type'', PStr ''Boat''), (''oppCount'', PInt 3)]]"
    by (simp add: boat_store_def)
  have d: "fst (get_producer_names demo_repr boat_store [PStr ''P1''] calls) = Inr Map.empty"
    using queries_differ(5) [of "id_list demo_repr [PStr ''P1'']" demo_day demo_day]
    by (simp add: get_producer_names_def query_all_def boat_store_def)
  have e: "snd (fst (connect_sf_and_query demo_repr remdups (Some boat_store) demo_day demo_day []))
       = [\<lparr>Type = PStr ''Boat'', LOB_Category = ''Boat'', Count = PInt 3,
            Producer = PStr ''Name Not Provided''\<rparr>]"
    by (simp add: boat_run)
  from a b c d e show ?thesis by blast
qed

theorem unresolved_producer_gets_sentinel_witness:
  "(\<exists>m. fst (get_producer_names demo_repr boat_store [PStr ''P1''] []) = Inr m \<and> m (PStr ''P1'') = None)
   \<and> (\<exists>rows. with_producer_loop Map.empty
          [[(''Producer__c'', PStr ''P1''), (''Type'', PStr ''Boat''), (''oppCount'', PInt 3)]] [] = Inr rows
        \<and> Producer (rows ! 0) = PStr ''Name Not Provided'')"
proof -
  let ?rec = "[(''Producer__c'', PStr ''P1''), (''Type'', PStr ''Boat''), (''oppCount'', PInt 3)]"
  let ?q = "producer_query (id_list demo_repr [PStr ''P1''])"
  note t = unresolved_producer_gets_sentinel
    [where obj_repr = demo_repr and sf = boat_store and ids = "[PStr ''P1'']" and calls = "[]"
       and producer_names = Map.empty and with_prod = "[?rec]"]
  have g: "get_producer_names demo_repr boat_store [PStr ''P1''] [] = (Inr Map.empty, [?q])"
    using queries_differ(5) [of "id_list demo_repr [PStr ''P1'']" demo_day demo_day]
    by (simp add: get_producer_names_def query_all_def boat_store_def)
  have s: "boat_store ?q = Inr []"
    using queries_differ(5) [of "id_list demo_repr [PStr ''P1'']" demo_day demo_day]
    by (simp add: boat_store_def)
  have l: "with_producer_loop Map.empty [?rec] []
      = Inr [\<lparr>Type = PStr ''Boat'', LOB_Category = ''Boat'', Count = PInt 3,
            Producer = PStr ''Name Not Provided''\<rparr>]"
    by (simp add: dict_get_def map_lob_samples)
  have n: "Map.empty (dict_get ([?rec] ! 0) ''Producer__c'' PNone) = (None :: string option)"
    by simp
  from t have "Map.empty (PStr ''P1'') = (None :: string option)"
    using g s by blast
  moreover from t l n have "Producer ([\<lparr>Type = PStr ''Boat'', LOB_Category = ''Boat'', Count = PInt 3,
            Producer = PStr ''Name Not Provided''\<rparr>] ! 0) = PStr ''Name Not Provided''"
    by simp
  ultimately show ?thesis using g l by simp
qed

section \<open>The date filter\<close>

lemma digits_of_small: "n < 10 \<Longrightarrow> digits_of n = [digit_chars ! n]"
  by (simp add: digits_of.simps)

lemma digits_of_step: "10 \<le> n \<Longrightarrow> digits_of n = digits_of (n div 10) @ [digit_chars ! (n mod 10)]"
  by (simp add: digits_of.simps [of n])

lemma zero_pad_2:
  assumes "n < 100"
  shows "zero_pad 2 n = [digit_chars ! (n div 10), digit_chars ! (n mod 10)]"
proof (cases "n < 10")
  case True
  then show ?thesis by (simp add: zero_pad_def digits_of_small digit_chars_def)
next
  case False
  then have "10 \<le> n" by simp
  moreover from assms have "n div 10 < 10" by simp
  ultimately show ?thesis by (simp add: zero_pad_def digits_of_step digits_of_small)
qed

lemma digits_of_4:
  assumes "1000 \<le> n" and "n \<le> 9999"
  shows "digits_of n = [digit_chars ! (n div 1000), digit_chars ! (n div 100 mod 10),
                        digit_chars ! (n div 10 mod 10), digit_chars ! (n mod 10)]"
proof -
  have a: "10 \<le> n" "10 \<le> n div 10" "10 \<le> n div 10 div 10" "n div 10 div 10 div 10 < 10"
    using assms by simp_all
  have b: "n div 10 div 10 = n div 100" "n div 100 div 10 = n div 1000"
    by (simp_all add: div_mult2_eq [symmetric])
  have "digits_of n = [digit_chars ! (n div 10 div 10 div 10), digit_chars ! (n div 10 div 10 mod 10),
                         digit_chars ! (n div 10 mod 10), digit_chars ! (n mod 10)]"
    using a by (simp add: digits_of_step [of n] digits_of_step [of "n div 10"]
        digits_of_step [of "n div 10 div 10"] digits_of_small)
  then show ?thesis by (simp add: b)
qed

lemma strftime_day:
  assumes "four_digit_date d"
  shows "strftime d (''%Y-%m-%d'' @ rest) = spec_day_text d @ strftime d rest"
  using assms
  by (simp add: four_digit_date_def spec_day_text_def zero_pad_2 digits_of_4 digit_chars_def)

lemma strftime_literal:
  "strftime d ''T00:00:00Z'' = ''T00:00:00Z''"
  "strftime d ''T23:59:59Z'' = ''T23:59:59Z''"
  by simp_all

lemma date_filter_text:
  assumes "four_digit_date start_date" and "four_digit_date end_date"
  shows "date_filter start_date end_date =
           ''CreatedDate >= '' @ spec_day_text start_date @ ''T00:00:00Z''
           @ '' AND CreatedDate <= '' @ spec_day_text end_date @ ''T23:59:59Z''"
proof -
  have s: "strftime start_date ''%Y-%m-%dT00:00:00Z'' = spec_day_text start_date @ ''T00:00:00Z''"
    using strftime_day [OF assms(1), of "''T00:00:00Z''"] by (simp add: strftime_literal)
  have e: "strftime end_date ''%Y-%m-%dT23:59:59Z'' = spec_day_text end_date @ ''T23:59:59Z''"
    using strftime_day [OF assms(2), of "''T23:59:59Z''"] by (simp add: strftime_literal)
  show ?thesis
    unfolding date_filter_def Let_def s e by simp
qed

lemma clean_run_queries:
  assumes "clean_responses obj_repr set_list sf s e"
  shows "take 3 (drop (length calls)
           (snd (snd (connect_sf_and_query obj_repr set_list (Some sf) s e calls))))
         = [type_query s e, query_with_producer s e, query_without_producer s e]"
proof -
  from clean_run_succeeds [OF assms, of calls] obtain lob_df producer_df rest where
    "connect_sf_and_query obj_repr set_list (Some sf) s e calls
       = ((lob_df, producer_df), None,
          calls @ [type_query s e, query_with_producer s e, query_without_producer s e] @ rest)"
    by blast
  then show ?thesis by simp
qed

text \<open>
  C6, as amended. For every pair of dates with four-digit years the filter is
  \<open>CreatedDate >=\<close> the start day at \<open>00:00:00Z\<close> \<open>AND CreatedDate <=\<close> the end day at
  \<open>23:59:59Z\<close>, both comparisons inclusive; each of the three queries has exactly this
  filter in its \<open>WHERE\<close> clause, and these are the first three queries a run issues. With
  the same day on both sides the filter spans that day from \<open>00:00:00\<close> to \<open>23:59:59\<close>.
\<close>

theorem date_filter_whole_days:
  assumes "four_digit_date start_date" and "four_digit_date end_date"
  shows "let whole_days =
           ''CreatedDate >= '' @ spec_day_text start_date @ ''T00:00:00Z''
           @ '' AND CreatedDate <= '' @ spec_day_text end_date @ ''T23:59:59Z''
         in date_filter start_date end_date = whole_days
          \<and> type_query start_date end_date =
              ''\<newline>            SELECT Type, COUNT(Id) oppCount''
              @ ''\<newline>            FROM Opportunity''
              @ ''\<newline>            WHERE '' @ whole_days
              @ ''\<newline>            GROUP BY Type''
              @ ''\<newline>        ''
          \<and> query_with_producer start_date end_date =
              ''\<newline>            SELECT Producer__c, Type, COUNT(Id) oppCount''
              @ ''\<newline>            FROM Opportunity''
              @ ''\<newline>            WHERE '' @ whole_days @ '' AND Producer__c != null''
              @ ''\<newline>            GROUP BY Producer__c, Type''
              @ ''\<newline>        ''
          \<and> query_without_producer start_date end_date =
              ''\<newline>            SELECT Owner.Name, Type, COUNT(Id) oppCount''
              @ ''\<newline>            FROM Opportunity''
              @ ''\<newline>            WHERE '' @ whole_days @ '' AND Producer__c = null''
              @ ''\<newline>            GROUP BY Owner.Name, Type''
              @ ''\<newline>        ''
          \<and> (\<forall>obj_repr set_list sf calls.
                clean_responses obj_repr set_list sf start_date end_date \<longrightarrow>
                take 3 (drop (length calls)
                  (snd (snd (connect_sf_and_query obj_repr set_list (Some sf)
                     start_date end_date calls))))
                = [type_query start_date end_date, query_with_producer start_date end_date,
                   query_without_producer start_date end_date])"
proof -
  note f = date_filter_text [OF assms]
  have q1: "type_query start_date end_date =
              ''\<newline>            SELECT Type, COUNT(Id) oppCount''
              @ ''\<newline>            FROM Opportunity''
              @ ''\<newline>            WHERE '' @ date_filter start_date end_date
              @ ''\<newline>            GROUP BY Type''
              @ ''\<newline>        ''"
    by (simp add: type_query_def)
  have q2: "query_with_producer start_date end_date =
              ''\<newline>            SELECT Producer__c, Type, COUNT(Id) oppCount''
              @ ''\<newline>            FROM Opportunity''
              @ ''\<newline>            WHERE '' @ date_filter start_date end_date @ '' AND Producer__c != null''
              @ ''\<newline>            GROUP BY Producer__c, Type''
              @ ''\<newline>        ''"
    by (simp add: query_with_producer_def)
  have q3: "query_without_producer start_date end_date =
              ''\<newline>            SELECT Owner.Name, Type, COUNT(Id) oppCount''
              @ ''\<newline>            FROM Opportunity''
              @ ''\<newline>            WHERE '' @ date_filter start_date end_date @ '' AND Producer__c = null''
              @ ''\<newline>            GROUP BY Owner.Name, Type''
              @ ''\<newline>        ''"
    by (simp add: query_without_producer_def)
  have r: "\<forall>obj_repr set_list sf calls.
                clean_responses obj_repr set_list sf start_date end_date \<longrightarrow>
                take 3 (drop (length calls)
                  (snd (snd (connect_sf_and_query obj_repr set_list (Some sf)
                     start_date end_date calls))))
                = [type_query start_date end_date, query_with_producer start_date end_date,
                   query_without_producer start_date end_date]"
    using clean_run_queries by blast
  show ?thesis
    unfolding Let_def f [symmetric] using q1 q2 q3 r by blast
qed

theorem date_filter_whole_days_witness:
  "four_digit_date demo_day
   \<and> clean_responses demo_repr remdups sample_store demo_day demo_day
   \<and> date_filter demo_day demo_day
       = ''CreatedDate >= 2024-03-05T00:00:00Z AND CreatedDate <= 2024-03-05T23:59:59Z''
   \<and> hd (snd (snd (connect_sf_and_query demo_repr remdups (Some sample_store) demo_day demo_day [])))
       = ''\<newline>            SELECT Type, COUNT(Id) oppCount''
         @ ''\<newline>            FROM Opportunity''
         @ ''\<newline>            WHERE CreatedDate >= 2024-03-05T00:00:00Z AND CreatedDate <= 2024-03-05T23:59:59Z''
         @ ''\<newline>            GROUP BY Type''
         @ ''\<newline>        ''"
proof -
  have h: "four_digit_date demo_day"
    by (simp add: four_digit_date_def demo_day_def)
  have d: "spec_day_text demo_day = ''2024-03-05''"
    by (simp add: spec_day_text_def demo_day_def)
  note t = date_filter_whole_days [OF h h, unfolded Let_def d]
  from t have f: "date_filter demo_day demo_day
       = ''CreatedDate >= 2024-03-05T00:00:00Z AND CreatedDate <= 2024-03-05T23:59:59Z''"
    by simp
  from t have q: "type_query demo_day demo_day
       = ''\<newline>            SELECT Type, COUNT(Id) oppCount''
         @ ''\<newline>            FROM Opportunity''
         @ ''\<newline>            WHERE CreatedDate >= 2024-03-05T00:00:00Z AND CreatedDate <= 2024-03-05T23:59:59Z''
         @ ''\<newline>            GROUP BY Type''
         @ ''\<newline>        ''"
    by simp
  from t sample_clean have "take 3 (drop (length ([] :: string list))
                  (snd (snd (connect_sf_and_query demo_repr remdups (Some sample_store)
                     demo_day demo_day []))))
                = [type_query demo_day demo_day, query_with_producer demo_day demo_day,
                   query_without_producer demo_day demo_day]"
    by blast
  then have "hd (snd (snd (connect_sf_and_query demo_repr remdups (Some sample_store) demo_day demo_day [])))
      = type_query demo_day demo_day"
    by (simp add: sample_run)
  with h f q sample_clean show ?thesis by (simp only: simp_thms)
qed

text \<open>
  C6 as stated, for every pair of dates, fails for a year below 1000: the year is
  printed without padding, and the text is not the day in a dateTime literal.
\<close>

theorem date_filter_early_year:
  "date_filter early_day early_day
     = ''CreatedDate >= 999-01-02T00:00:00Z AND CreatedDate <= 999-01-02T23:59:59Z''
   \<and> spec_day_text early_day = ''0999-01-02''
   \<and> date_filter early_day early_day
     \<noteq> ''CreatedDate >= '' @ spec_day_text early_day @ ''T00:00:00Z''
       @ '' AND CreatedDate <= '' @ spec_day_text early_day @ ''T23:59:59Z''"
  by (simp add: date_filter_def early_day_def spec_day_text_def zero_pad_def digit_chars_def
      digits_of.simps)


section \<open>Names built by the resolver\<close>

lemma producer_entry_no_break_space:
  "producer_entry obj_repr
     [(''Id'', PStr ''P1''),
      (''InternalUser'', PDict [(''FirstName'', PStr [CHR 0xC2, CHR 0xA0]), (''LastName'', PStr [])])]
   = Inr (PStr ''P1'', ''Name Not Provided'')"
  by (simp add: producer_entry_def dict_get_def strip_def space1_def space2_def space3_def)

lemma producer_entry_string_names:
  "producer_entry obj_repr
     [(''Id'', PStr pid),
      (''InternalUser'', PDict [(''FirstName'', PStr fname), (''LastName'', PStr lname)])]
   = Inr (PStr pid,
          if strip (fname @ '' '' @ lname) = [] then ''Name Not Provided''
          else strip (fname @ '' '' @ lname))"
  by (simp add: producer_entry_def dict_get_def)

lemma producer_entry_blank_names:
  "producer_entry obj_repr
     [(''Id'', PStr ''P1''),
      (''InternalUser'', PDict [(''FirstName'', PStr []), (''LastName'', PStr [])])]
   = Inr (PStr ''P1'', ''Name Not Provided'')"
  by (simp add: producer_entry_string_names strip_samples)

lemma producer_entry_no_user:
  "producer_entry obj_repr [(''Id'', PStr ''P1''), (''InternalUser'', PNone)]
   = Inr (PStr ''P1'', ''Name Not Provided'')"
  by (simp add: producer_entry_def dict_get_def strip_samples)

text \<open>
  C4. The resolver on a producer whose user record holds null for both names: the name
  stored is the text \<open>None None\<close>, not the sentinel; with a null first name and the last
  name \<open>Doe\<close> it is \<open>None Doe\<close>. For names that are strings, or a user relationship that
  is missing, the lemmas above give the trimmed concatenation and the sentinel.
\<close>

theorem get_producer_names_null_names:
  "get_producer_names obj_repr nameless_store [PStr ''P1''] []
     = (Inr [PStr ''P1'' \<mapsto> ''None None''],
        [producer_query [CHR 0x27, CHR ''P'', CHR ''1'', CHR 0x27]])
   \<and> producer_entry obj_repr
        [(''Id'', PStr ''P2''),
         (''InternalUser'', PDict [(''FirstName'', PNone), (''LastName'', PStr ''Doe'')])]
     = Inr (PStr ''P2'', ''None Doe'')"
  by (simp add: get_producer_names_def query_all_def nameless_store_def producer_entry_def
      dict_get_def id_list_def strip_def space1_def space2_def space3_def)

end
